theory Spec2Isabelle
  imports Complex_Main "HOL-Library.AList" "HOL-Library.Word"
begin

section \<open>The HMI worker of Dreamview (modules/dreamview/backend/hmi/hmi_worker.cc)\<close>

text \<open>
  The development embeds the functions of \<^verbatim>\<open>hmi_worker.cc\<close> as HOL functions over an
  explicit worker state. Conventions:
  \<^item> a protobuf \<^verbatim>\<open>Map<string, V>\<close> is an association list, whose order stands for the
    (unspecified) iteration order of the map;
  \<^item> a data member \<^verbatim>\<open>name_\<close> of the class \<^verbatim>\<open>HMIWorker\<close> is the field \<open>w_name\<close>;
  \<^item> everything the worker does to the outside (commands run, messages written, sleeps,
    error log lines, key-value writes) is appended to the field \<open>effects\<close>, oldest first;
  \<^item> what the outside answers (file contents, exit codes, the profile switch, the
    fingerprint function, flags) is read from an environment record;
  \<^item> a failed \<^verbatim>\<open>CHECK\<close> and an \<^verbatim>\<open>AFATAL\<close> statement terminate the process: they are
    the \<open>Inl\<close> results, which carry the worker state at that point. Informational log
    lines (\<^verbatim>\<open>AINFO\<close>) are left out.

  The functions that list the configuration directories and build the initial status
  (\<^verbatim>\<open>TitleCase\<close>, \<^verbatim>\<open>ListDirAsDict\<close>, \<^verbatim>\<open>ListFilesAsDict\<close>, \<^verbatim>\<open>LoadConfig\<close>,
  \<^verbatim>\<open>InitStatus\<close>), \<^verbatim>\<open>SubmitDriveEvent\<close> and the chassis callback are not used by the
  properties below and are not embedded.
\<close>

subsection \<open>Messages and configuration\<close>

type_synonym 'v pb_map = "(string \<times> 'v) list"

text \<open>
  Modelled from the spec: the protobuf messages and enumerations are declared in
  \<^verbatim>\<open>.proto\<close> files outside this file. The records below have the fields that the
  source reads or writes, under the names of its accessors, as the data model of the
  specification lists them; of a monitored component of a mode only the name is used, so
  its value is \<open>unit\<close>. The enumerations \<^verbatim>\<open>Chassis::DrivingMode\<close>,
  \<^verbatim>\<open>DrivingAction\<close>, \<^verbatim>\<open>HMIAction\<close> and \<^verbatim>\<open>ComponentStatus::Status\<close> contain the
  enumerators that the source names; the further ones stand for the values that the
  source leaves to its \<^verbatim>\<open>default\<close> branches.
\<close>

datatype DrivingMode =
  COMPLETE_MANUAL | COMPLETE_AUTO_DRIVE | AUTO_STEER_ONLY | AUTO_SPEED_ONLY | EMERGENCY_MODE

datatype DrivingAction = STOP | START | RESET

datatype HMIAction =
  NONE | SETUP_MODE | RESET_MODE | ENTER_AUTO_MODE | DISENGAGE
  | CHANGE_MODE | CHANGE_MAP | CHANGE_VEHICLE | START_MODULE | STOP_MODULE

datatype Status = UNKNOWN | OK | WARN | ERROR | FATAL

record ComponentStatus =
  status :: Status
  message :: string

definition default_ComponentStatus :: ComponentStatus where
  "default_ComponentStatus = \<lparr>status = UNKNOWN, message = []\<rparr>"



record Module =
  start_command :: string
  stop_command :: string
  command_keywords :: "string list"
  required_for_safety :: bool

definition default_Module :: Module where
  "default_Module =
     \<lparr>start_command = [], stop_command = [], command_keywords = [],
      required_for_safety = True\<rparr>"

record CyberModule =
  dag_files :: "string list"
  cyber_required_for_safety :: bool
  process_group :: string

record HMIMode =
  cyber_modules :: "CyberModule pb_map"
  mode_modules :: "Module pb_map"
  mode_monitored_components :: "unit pb_map"

record HMIConfig =
  cfg_modes :: "string pb_map"
  cfg_maps :: "string pb_map"
  cfg_vehicles :: "string pb_map"

record HMIStatus =
  modes :: "string list"
  current_mode :: string
  maps :: "string list"
  current_map :: string
  vehicles :: "string list"
  current_vehicle :: string
  modules :: "bool pb_map"
  monitored_components :: "ComponentStatus pb_map"
  docker_image :: string
  utm_zone_id :: int

subsection \<open>Worker state, effects and environment\<close>

datatype effect =
  Exec string
  | LogError string
  | PadWrite DrivingAction
  | SleepMs nat
  | KVPut string string
  | AppendFlagfile string string
  | CallUseVehicle string

record HMIWorker =
  w_config :: HMIConfig
  w_status :: HMIStatus
  w_status_changed :: bool
  w_current_mode :: HMIMode
  flag_map_dir :: string
  last_status_fingerprint :: "64 word"
  chassis_feed :: "DrivingMode option list"
  chassis_observed :: "DrivingMode option"
  effects :: "effect list"

record Env =
  GetProtoFromFile :: "string \<Rightarrow> HMIMode option"
  std_system :: "string \<Rightarrow> int"
  UseVehicle :: "string \<Rightarrow> bool"
  flagfile_opens :: bool
  MessageFingerprint :: "HMIStatus \<Rightarrow> 64 word"
  flag_status_publish_interval :: real
  flag_use_sim_time :: bool
  flag_system_status_lifetime_seconds :: real
  flag_current_mode_db_key :: string

datatype abort = Abort string HMIWorker

definition emit :: "effect \<Rightarrow> HMIWorker \<Rightarrow> HMIWorker" where
  "emit e w = w\<lparr>effects := effects w @ [e]\<rparr>"

text \<open>The commands handed to \<^verbatim>\<open>std::system\<close>, in the order they were run.\<close>

fun commands_run :: "effect list \<Rightarrow> string list" where
  "commands_run [] = []"
| "commands_run (Exec c # es) = c # commands_run es"
| "commands_run (_ # es) = commands_run es"

subsection \<open>Map helpers (modules/common/util/map_util.h)\<close>

definition ContainsKey :: "'v pb_map \<Rightarrow> string \<Rightarrow> bool" where
  "ContainsKey m k = (k \<in> set (map fst m))"

definition FindOrNull :: "'v pb_map \<Rightarrow> string \<Rightarrow> 'v option" where
  "FindOrNull m k = map_of m k"

text \<open>\<^verbatim>\<open>Map::insert\<close> keeps the entry of a key that is already present.\<close>

definition pb_insert :: "string \<Rightarrow> 'v \<Rightarrow> 'v pb_map \<Rightarrow> 'v pb_map" where
  "pb_insert k v m = (if ContainsKey m k then m else m @ [(k, v)])"

subsection \<open>LoadMode\<close>

text \<open>
  One iteration of the loop over \<^verbatim>\<open>mode.cyber_modules()\<close>. \<^verbatim>\<open>LookupOrInsert\<close> yields
  the entry already stored under the name, or a fresh default one; the setters then act
  on that entry, and \<open>AList.update\<close> writes it back in place (or appends the fresh one).
\<close>

definition translate_cyber_module ::
  "string \<Rightarrow> string \<Rightarrow> CyberModule \<Rightarrow> Module pb_map \<Rightarrow> string + Module pb_map" where
  \<open>translate_cyber_module mode_config_path module_name cyber_module mods =
     (if dag_files cyber_module = []
      then Inl (''None dag file is provided for '' @ module_name @ '' module in ''
                @ mode_config_path)
      else
        let module0 = (case FindOrNull mods module_name of
                         Some m \<Rightarrow> m | None \<Rightarrow> default_Module);
            module1 = module0\<lparr>required_for_safety :=
                                cyber_required_for_safety cyber_module\<rparr>;
            module2 = module1\<lparr>start_command := ''nohup mainboard''\<rparr>;
            module3 = (if process_group cyber_module \<noteq> []
                       then module2\<lparr>start_command := start_command module2 @ '' -p ''
                                        @ process_group cyber_module\<rparr>
                       else module2);
            module4 = fold (\<lambda>dag m. m\<lparr>start_command := start_command m @ '' -d '' @ dag\<rparr>)
                        (dag_files cyber_module) module3;
            module5 = module4\<lparr>start_command := start_command module4 @ '' &''\<rparr>;
            first_dag = hd (dag_files cyber_module);
            module6 = module5\<lparr>stop_command := ''pkill -f "'' @ first_dag @ ''"''\<rparr>;
            module7 = module6\<lparr>command_keywords :=
                                command_keywords module6 @ [''mainboard'']\<rparr>;
            module8 = module7\<lparr>command_keywords :=
                                command_keywords module7 @ [first_dag]\<rparr>
        in Inr (AList.update module_name module8 mods))\<close>

fun translate_cyber_modules ::
  "string \<Rightarrow> CyberModule pb_map \<Rightarrow> Module pb_map \<Rightarrow> string + Module pb_map" where
  "translate_cyber_modules path [] mods = Inr mods"
| "translate_cyber_modules path ((module_name, cyber_module) # rest) mods =
     (case translate_cyber_module path module_name cyber_module mods of
        Inl e \<Rightarrow> Inl e
      | Inr mods' \<Rightarrow> translate_cyber_modules path rest mods')"

definition LoadMode :: "Env \<Rightarrow> string \<Rightarrow> string + HMIMode" where
  "LoadMode env mode_config_path =
     (case GetProtoFromFile env mode_config_path of
        None \<Rightarrow> Inl (''Unable to parse HMIMode from file '' @ mode_config_path)
      | Some mode \<Rightarrow>
          (case translate_cyber_modules mode_config_path (cyber_modules mode)
                  (mode_modules mode) of
             Inl e \<Rightarrow> Inl e
           | Inr mods \<Rightarrow> Inr (mode\<lparr>mode_modules := mods, cyber_modules := []\<rparr>)))"


subsection \<open>Running commands\<close>

function show_nat :: "nat \<Rightarrow> string" where
  "show_nat n =
     (if n < 10 then [char_of (48 + n)]
      else show_nat (n div 10) @ [char_of (48 + n mod 10)])"
  by pat_completeness auto
termination
  by (relation "measure id") auto

definition show_int :: "int \<Rightarrow> string" where
  "show_int i = (if i < 0 then ''-'' @ show_nat (nat (- i)) else show_nat (nat i))"

definition System :: "Env \<Rightarrow> string \<Rightarrow> HMIWorker \<Rightarrow> HMIWorker" where
  "System env cmd w =
     (let w1 = emit (Exec cmd) w;
          ret = std_system env cmd
      in if ret = 0 then w1
         else emit (LogError (''FAILED('' @ show_int ret @ ''): '' @ cmd)) w1)"

definition StartModule :: "Env \<Rightarrow> string \<Rightarrow> HMIWorker \<Rightarrow> HMIWorker" where
  "StartModule env module_name w =
     (case FindOrNull (mode_modules (w_current_mode w)) module_name of
        Some module_conf \<Rightarrow> System env (start_command module_conf) w
      | None \<Rightarrow> emit (LogError (''Cannot find module '' @ module_name)) w)"

definition StopModule :: "Env \<Rightarrow> string \<Rightarrow> HMIWorker \<Rightarrow> HMIWorker" where
  "StopModule env module_name w =
     (case FindOrNull (mode_modules (w_current_mode w)) module_name of
        Some module_conf \<Rightarrow> System env (stop_command module_conf) w
      | None \<Rightarrow> emit (LogError (''Cannot find module '' @ module_name)) w)"

definition GetStatus :: "HMIWorker \<Rightarrow> HMIStatus" where
  "GetStatus w = w_status w"

definition SetupMode :: "Env \<Rightarrow> HMIWorker \<Rightarrow> HMIWorker" where
  "SetupMode env w =
     fold (\<lambda>iter. System env (start_command (snd iter))) (mode_modules (w_current_mode w)) w"

definition ResetMode :: "Env \<Rightarrow> HMIWorker \<Rightarrow> HMIWorker" where
  "ResetMode env w =
     fold (\<lambda>iter. System env (stop_command (snd iter))) (mode_modules (w_current_mode w)) w"

subsection \<open>ChangeDrivingMode\<close>

definition DrivingMode_Name :: "DrivingMode \<Rightarrow> string" where
  "DrivingMode_Name mode =
     (case mode of
        COMPLETE_MANUAL \<Rightarrow> ''COMPLETE_MANUAL''
      | COMPLETE_AUTO_DRIVE \<Rightarrow> ''COMPLETE_AUTO_DRIVE''
      | AUTO_STEER_ONLY \<Rightarrow> ''AUTO_STEER_ONLY''
      | AUTO_SPEED_ONLY \<Rightarrow> ''AUTO_SPEED_ONLY''
      | EMERGENCY_MODE \<Rightarrow> ''EMERGENCY_MODE'')"

definition kMaxTries :: nat where
  "kMaxTries = 3"

definition kTryInterval :: nat where
  "kTryInterval = 500"

text \<open>
  The chassis reader: \<open>chassis_feed\<close> lists what the successive calls of
  \<^verbatim>\<open>Observe()\<close> will find as the latest message (\<open>None\<close>: no message yet);
  \<open>chassis_observed\<close> is the message held since the last call. When the feed is used
  up, the reader keeps what it holds.
\<close>

definition Observe :: "HMIWorker \<Rightarrow> HMIWorker" where
  "Observe w =
     (case chassis_feed w of
        [] \<Rightarrow> w
      | x # xs \<Rightarrow> w\<lparr>chassis_observed := x, chassis_feed := xs\<rparr>)"

text \<open>The \<^verbatim>\<open>for\<close> loop; the first argument counts the tries that are left.\<close>

fun send_driving_action ::
  "nat \<Rightarrow> DrivingMode \<Rightarrow> DrivingAction \<Rightarrow> HMIWorker \<Rightarrow> bool \<times> HMIWorker" where
  "send_driving_action 0 mode action w = (False, w)"
| "send_driving_action (Suc tries) mode action w =
     (let w1 = emit (PadWrite action) w;
          w2 = emit (SleepMs kTryInterval) w1;
          w3 = Observe w2
      in case chassis_observed w3 of
           None \<Rightarrow> send_driving_action tries mode action
                     (emit (LogError ''No Chassis message received!'') w3)
         | Some driving_mode \<Rightarrow>
             if driving_mode = mode then (True, w3)
             else send_driving_action tries mode action w3)"

definition try_driving_action ::
  "DrivingMode \<Rightarrow> DrivingAction \<Rightarrow> HMIWorker \<Rightarrow> abort + bool \<times> HMIWorker" where
  "try_driving_action mode action w =
     (case send_driving_action kMaxTries mode action w of
        (True, w') \<Rightarrow> Inr (True, w')
      | (False, w') \<Rightarrow>
          Inr (False, emit (LogError (''Failed to change driving mode to ''
                                       @ DrivingMode_Name mode)) w'))"

function ChangeDrivingMode :: "DrivingMode \<Rightarrow> HMIWorker \<Rightarrow> abort + bool \<times> HMIWorker" where
  "ChangeDrivingMode mode w =
     (case (if mode \<noteq> COMPLETE_MANUAL then ChangeDrivingMode COMPLETE_MANUAL w
            else Inr (True, w)) of
        Inl a \<Rightarrow> Inl a
      | Inr (reset_ok, w1) \<Rightarrow>
          if \<not> reset_ok
          then Inr (False, emit (LogError (''Failed to reset to MANUAL before changing to ''
                                           @ DrivingMode_Name mode)) w1)
          else (case mode of
                  COMPLETE_MANUAL \<Rightarrow> try_driving_action mode RESET w1
                | COMPLETE_AUTO_DRIVE \<Rightarrow> try_driving_action mode START w1
                | _ \<Rightarrow> Inl (Abort (''Change driving mode to '' @ DrivingMode_Name mode
                                    @ '' not implemented!'') w1)))"
  by pat_completeness auto
termination
  by (relation "measure (\<lambda>(mode, w). if mode = COMPLETE_MANUAL then 0 else 1)") auto

declare ChangeDrivingMode.simps [simp del]


subsection \<open>ChangeMap, ChangeVehicle, ChangeMode\<close>

definition kGlobalFlagfile :: string where
  "kGlobalFlagfile = ''/apollo/modules/common/data/global_flagfile.txt''"

text \<open>\<^verbatim>\<open>SetGlobalFlag\<close>, as it is instantiated for \<^verbatim>\<open>FLAGS_map_dir\<close>.\<close>

definition SetGlobalFlag :: "Env \<Rightarrow> string \<Rightarrow> string \<Rightarrow> HMIWorker \<Rightarrow> abort + HMIWorker" where
  "SetGlobalFlag env flag_name v w =
     (if flag_map_dir w \<noteq> v
      then let w1 = w\<lparr>flag_map_dir := v\<rparr>
           in if \<not> flagfile_opens env
              then Inl (Abort (''Fail to open global flagfile '' @ kGlobalFlagfile) w1)
              else Inr (emit (AppendFlagfile flag_name v) w1)
      else Inr w)"

definition ChangeMap :: "Env \<Rightarrow> string \<Rightarrow> HMIWorker \<Rightarrow> abort + HMIWorker" where
  "ChangeMap env map_name w =
     (case FindOrNull (cfg_maps (w_config w)) map_name of
        None \<Rightarrow> Inr (emit (LogError (''Unknown map '' @ map_name)) w)
      | Some map_dir \<Rightarrow>
          if current_map (w_status w) = map_name then Inr w
          else
            let w1 = w\<lparr>w_status := (w_status w)\<lparr>current_map := map_name\<rparr>\<rparr>;
                w2 = w1\<lparr>w_status_changed := True\<rparr>
            in case SetGlobalFlag env ''map_dir'' map_dir w2 of
                 Inl a \<Rightarrow> Inl a
               | Inr w3 \<Rightarrow> Inr (ResetMode env w3))"

definition ChangeVehicle :: "Env \<Rightarrow> string \<Rightarrow> HMIWorker \<Rightarrow> abort + HMIWorker" where
  "ChangeVehicle env vehicle_name w =
     (case FindOrNull (cfg_vehicles (w_config w)) vehicle_name of
        None \<Rightarrow> Inr (emit (LogError (''Unknown vehicle '' @ vehicle_name)) w)
      | Some vehicle_dir \<Rightarrow>
          if current_vehicle (w_status w) = vehicle_name then Inr w
          else
            let w1 = w\<lparr>w_status := (w_status w)\<lparr>current_vehicle := vehicle_name\<rparr>\<rparr>;
                w2 = w1\<lparr>w_status_changed := True\<rparr>;
                w3 = ResetMode env w2;
                w4 = emit (CallUseVehicle vehicle_dir) w3
            in if UseVehicle env vehicle_dir then Inr w4
               else Inl (Abort ''Check failed: VehicleManager::Instance()->UseVehicle(*vehicle_dir)''
                          w4))"

text \<open>
  The block of \<^verbatim>\<open>ChangeMode\<close> that runs under the write lock of the status: one
  exclusive mutation, from \<^verbatim>\<open>set_current_mode\<close> to \<^verbatim>\<open>status_changed_ = true\<close>.
  \<^verbatim>\<open>Map::at\<close> is fatal on a missing key.
\<close>

definition ChangeMode_locked :: "Env \<Rightarrow> string \<Rightarrow> HMIWorker \<Rightarrow> abort + HMIWorker" where
  "ChangeMode_locked env mode_name w =
     (let w1 = w\<lparr>w_status := (w_status w)\<lparr>current_mode := mode_name\<rparr>\<rparr>
      in case FindOrNull (cfg_modes (w_config w1)) mode_name of
           None \<Rightarrow> Inl (Abort (''Map::at: key not found: '' @ mode_name) w1)
         | Some mode_config_path \<Rightarrow>
             (case LoadMode env mode_config_path of
                Inl msg \<Rightarrow> Inl (Abort msg w1)
              | Inr mode \<Rightarrow>
                  let w2 = w1\<lparr>w_current_mode := mode\<rparr>;
                      w3 = w2\<lparr>w_status := (w_status w2)\<lparr>modules := []\<rparr>\<rparr>;
                      w4 = fold (\<lambda>iter w'. w'\<lparr>w_status := (w_status w')
                                   \<lparr>modules := pb_insert (fst iter) False
                                                 (modules (w_status w'))\<rparr>\<rparr>)
                             (mode_modules (w_current_mode w3)) w3;
                      w5 = w4\<lparr>w_status := (w_status w4)\<lparr>monitored_components := []\<rparr>\<rparr>;
                      w6 = fold (\<lambda>iter w'. w'\<lparr>w_status := (w_status w')
                                   \<lparr>monitored_components :=
                                      pb_insert (fst iter) default_ComponentStatus
                                        (monitored_components (w_status w'))\<rparr>\<rparr>)
                             (mode_monitored_components (w_current_mode w5)) w5
                  in Inr (w6\<lparr>w_status_changed := True\<rparr>)))"

definition ChangeMode :: "Env \<Rightarrow> string \<Rightarrow> HMIWorker \<Rightarrow> abort + HMIWorker" where
  "ChangeMode env mode_name w =
     (if \<not> ContainsKey (cfg_modes (w_config w)) mode_name
      then Inr (emit (LogError (''Cannot change to unknown mode '' @ mode_name)) w)
      else if current_mode (w_status w) = mode_name then Inr w
      else
        let w1 = ResetMode env w
        in case ChangeMode_locked env mode_name w1 of
             Inl a \<Rightarrow> Inl a
           | Inr w2 \<Rightarrow> Inr (emit (KVPut (flag_current_mode_db_key env) mode_name) w2))"

subsection \<open>Trigger\<close>

definition Trigger :: "Env \<Rightarrow> HMIAction \<Rightarrow> HMIWorker \<Rightarrow> abort + bool \<times> HMIWorker" where
  "Trigger env action w =
     (case action of
        NONE \<Rightarrow> Inr (True, w)
      | SETUP_MODE \<Rightarrow> Inr (True, SetupMode env w)
      | ENTER_AUTO_MODE \<Rightarrow> ChangeDrivingMode COMPLETE_AUTO_DRIVE w
      | DISENGAGE \<Rightarrow> ChangeDrivingMode COMPLETE_MANUAL w
      | RESET_MODE \<Rightarrow> Inr (True, ResetMode env w)
      | _ \<Rightarrow> Inr (False, emit (LogError ''HMIAction not implemented, yet!'') w))"

text \<open>The overload \<^verbatim>\<open>Trigger(action, value)\<close>.\<close>

definition Trigger_value ::
  "Env \<Rightarrow> HMIAction \<Rightarrow> string \<Rightarrow> HMIWorker \<Rightarrow> abort + bool \<times> HMIWorker" where
  "Trigger_value env action v w =
     (case action of
        CHANGE_MODE \<Rightarrow>
          (case ChangeMode env v w of Inl a \<Rightarrow> Inl a | Inr w' \<Rightarrow> Inr (True, w'))
      | CHANGE_MAP \<Rightarrow>
          (case ChangeMap env v w of Inl a \<Rightarrow> Inl a | Inr w' \<Rightarrow> Inr (True, w'))
      | CHANGE_VEHICLE \<Rightarrow>
          (case ChangeVehicle env v w of Inl a \<Rightarrow> Inl a | Inr w' \<Rightarrow> Inr (True, w'))
      | START_MODULE \<Rightarrow> Inr (True, StartModule env v w)
      | STOP_MODULE \<Rightarrow> Inr (True, StopModule env v w)
      | _ \<Rightarrow> Inr (False, emit (LogError ''HMIAction not implemented, yet!'') w))"

subsection \<open>The SystemStatus reader callback\<close>


subsection \<open>StatusUpdateThreadLoop\<close>

definition kLoopIntervalMs :: nat where
  "kLoopIntervalMs = 200"

datatype tick_result = Skipped | Handled bool HMIStatus

text \<open>
  The loop body after the sleep. The function-local static \<^verbatim>\<open>next_update_time\<close> is
  threaded through the loop; \<open>Handled status_changed status\<close> stands for the calls of
  the registered handlers, \<open>Skipped\<close> for \<^verbatim>\<open>continue\<close>.
\<close>

definition loop_body ::
  "Env \<Rightarrow> real \<Rightarrow> real \<Rightarrow> HMIWorker \<Rightarrow> tick_result \<times> real \<times> HMIWorker" where
  "loop_body env now next_update_time w =
     (let status_changed = w_status_changed w;
          w1 = w\<lparr>w_status_changed := False\<rparr>
      in if \<not> status_changed
         then if now < next_update_time then (Skipped, next_update_time, w1)
              else (Handled status_changed (GetStatus w1),
                    now + flag_status_publish_interval env, w1)
         else (Handled status_changed (GetStatus w1), next_update_time, w1))"

text \<open>
  One list element per iteration that runs before \<^verbatim>\<open>stop_\<close> is seen: the clock
  value read in the iteration, and what the other threads did to the worker while the
  loop slept.
\<close>

fun StatusUpdateThreadLoop_from ::
  "Env \<Rightarrow> (real \<times> (HMIWorker \<Rightarrow> HMIWorker)) list \<Rightarrow> real \<Rightarrow> HMIWorker
     \<Rightarrow> tick_result list \<times> real \<times> HMIWorker" where
  "StatusUpdateThreadLoop_from env [] next_update_time w = ([], next_update_time, w)"
| "StatusUpdateThreadLoop_from env ((now, others) # ticks) next_update_time w =
     (let w1 = others (emit (SleepMs kLoopIntervalMs) w);
          (r, next_update_time', w2) = loop_body env now next_update_time w1;
          (rs, next_update_time'', w3) =
             StatusUpdateThreadLoop_from env ticks next_update_time' w2
      in (r # rs, next_update_time'', w3))"

definition StatusUpdateThreadLoop ::
  "Env \<Rightarrow> (real \<times> (HMIWorker \<Rightarrow> HMIWorker)) list \<Rightarrow> HMIWorker
     \<Rightarrow> tick_result list \<times> real \<times> HMIWorker" where
  "StatusUpdateThreadLoop env ticks w = StatusUpdateThreadLoop_from env ticks 0 w"


subsection \<open>Auxiliary notions and concrete scenarios\<close>

text \<open>The liveness keywords that a regular module entry of the descriptor already lists
  under a name (none when there is no such entry).\<close>

definition declared_keywords :: "Module pb_map \<Rightarrow> string \<Rightarrow> string list" where
  "declared_keywords mods name =
     (case map_of mods name of Some m \<Rightarrow> command_keywords m | None \<Rightarrow> [])"

definition planning_cyber_module :: CyberModule where
  "planning_cyber_module =
     \<lparr>dag_files = [''/dag/planning.dag'', ''/dag/relative_map.dag''],
      cyber_required_for_safety = True, process_group = ''compute_sched''\<rparr>"

text \<open>A descriptor with one cyber module and one monitored component.\<close>

definition mkz_mode_file :: HMIMode where
  "mkz_mode_file =
     \<lparr>cyber_modules = [(''Planning'', planning_cyber_module)],
      mode_modules = [],
      mode_monitored_components = [(''GPS'', ())]\<rparr>"

text \<open>A descriptor that declares \<open>Planning\<close> both as a regular module, with a liveness
  keyword of its own, and as a cyber module.\<close>

definition merged_mode_file :: HMIMode where
  "merged_mode_file =
     \<lparr>cyber_modules = [(''Planning'', planning_cyber_module)],
      mode_modules =
        [(''Planning'', \<lparr>start_command = ''start.sh'', stop_command = ''stop.sh'',
                         command_keywords = [''planning_main''],
                         required_for_safety = True\<rparr>)],
      mode_monitored_components = [(''GPS'', ())]\<rparr>"

definition demo_env :: Env where
  "demo_env =
     \<lparr>GetProtoFromFile =
        (\<lambda>path. if path = ''/modes/mkz.pb.txt'' then Some mkz_mode_file
                else if path = ''/modes/merged.pb.txt'' then Some merged_mode_file
                else None),
      std_system = (\<lambda>cmd. 0),
      UseVehicle = (\<lambda>dir. True),
      flagfile_opens = True,
      MessageFingerprint =
        (\<lambda>st. of_nat (length (current_mode st) + length (modules st))),
      flag_status_publish_interval = 5,
      flag_use_sim_time = False,
      flag_system_status_lifetime_seconds = 30,
      flag_current_mode_db_key = ''/apollo/hmi/status:current_mode''\<rparr>"

text \<open>The effects other than error log lines: commands, pad messages, sleeps, writes.\<close>

fun without_logs :: "effect list \<Rightarrow> effect list" where
  "without_logs [] = []"
| "without_logs (LogError msg # es) = without_logs es"
| "without_logs (e # es) = e # without_logs es"

text \<open>The mode that \<open>LoadMode\<close> yields for the second descriptor, and a worker that
  runs it: no chassis message has arrived, nothing has been done yet.\<close>

definition merged_mode_loaded :: HMIMode where
  \<open>merged_mode_loaded =
     \<lparr>cyber_modules = [],
      mode_modules =
        [(''Planning'',
          \<lparr>start_command =
             ''nohup mainboard -p compute_sched -d /dag/planning.dag -d /dag/relative_map.dag &'',
           stop_command = ''pkill -f "/dag/planning.dag"'',
           command_keywords = [''planning_main'', ''mainboard'', ''/dag/planning.dag''],
           required_for_safety = True\<rparr>)],
      mode_monitored_components = [(''GPS'', ())]\<rparr>\<close>

definition demo_worker :: HMIWorker where
  "demo_worker =
     \<lparr>w_config =
        \<lparr>cfg_modes = [(''Merged'', ''/modes/merged.pb.txt''), (''Mkz'', ''/modes/mkz.pb.txt'')],
         cfg_maps = [(''Sunnyvale'', ''/maps/sunnyvale'')],
         cfg_vehicles = [(''Mkz8'', ''/vehicles/mkz8'')]\<rparr>,
      w_status =
        \<lparr>modes = [''Merged'', ''Mkz''], current_mode = ''Merged'',
         maps = [''Sunnyvale''], current_map = ''Sunnyvale'',
         vehicles = [''Mkz8''], current_vehicle = [],
         modules = [(''Planning'', False)],
         monitored_components = [(''GPS'', \<lparr>status = OK, message = []\<rparr>)],
         docker_image = [], utm_zone_id = 10\<rparr>,
      w_status_changed = False,
      w_current_mode = merged_mode_loaded,
      flag_map_dir = ''/maps/sunnyvale'',
      last_status_fingerprint = 7,
      chassis_feed = [],
      chassis_observed = None,
      effects = []\<rparr>"


section \<open>Properties\<close>

subsection \<open>LoadMode\<close>

lemma fold_dag_start:
  "start_command (fold (\<lambda>dag m. m\<lparr>start_command := start_command m @ f dag\<rparr>) ds m)
     = start_command m @ concat (map f ds)"
  by (induction ds arbitrary: m) simp_all

lemma fold_dag_others:
  "stop_command (fold (\<lambda>dag m. m\<lparr>start_command := start_command m @ f dag\<rparr>) ds m)
     = stop_command m
   \<and> command_keywords (fold (\<lambda>dag m. m\<lparr>start_command := start_command m @ f dag\<rparr>) ds m)
     = command_keywords m
   \<and> required_for_safety (fold (\<lambda>dag m. m\<lparr>start_command := start_command m @ f dag\<rparr>) ds m)
     = required_for_safety m"
  by (induction ds arbitrary: m) simp_all

lemma translate_one_same:
  assumes "dag_files cm = a # ds"
  shows \<open>\<exists>mods' m. translate_cyber_module path name cm mods = Inr mods'
          \<and> map_of mods' name = Some m
          \<and> start_command m = ''nohup mainboard''
               @ (if process_group cm \<noteq> [] then '' -p '' @ process_group cm else [])
               @ concat (map (\<lambda>d. '' -d '' @ d) (a # ds)) @ '' &''
          \<and> stop_command m = ''pkill -f "'' @ a @ ''"''
          \<and> command_keywords m = declared_keywords mods name @ [''mainboard'', a]
          \<and> required_for_safety m = cyber_required_for_safety cm\<close>
  using assms
  by (simp add: translate_cyber_module_def Let_def fold_dag_start fold_dag_others
      update_conv' declared_keywords_def FindOrNull_def default_Module_def
      split: option.splits)

lemma translate_one_other:
  assumes "translate_cyber_module path name cm mods = Inr mods'" and "n \<noteq> name"
  shows "map_of mods' n = map_of mods n"
  using assms
  by (auto simp add: translate_cyber_module_def Let_def update_conv' split: if_splits)

lemma translate_all_other:
  assumes "translate_cyber_modules path cms mods = Inr mods'" and "n \<notin> set (map fst cms)"
  shows "map_of mods' n = map_of mods n"
  using assms
proof (induction cms arbitrary: mods)
  case Nil
  then show ?case by simp
next
  case (Cons e cms)
  obtain k cm where e: "e = (k, cm)" by (cases e)
  from Cons.prems obtain mid where
    one: "translate_cyber_module path k cm mods = Inr mid" and
    rest: "translate_cyber_modules path cms mid = Inr mods'"
    by (auto simp: e split: sum.splits)
  from Cons.prems have "n \<noteq> k" "n \<notin> set (map fst cms)" by (auto simp: e)
  then show ?case using Cons.IH [OF rest] translate_one_other [OF one] by simp
qed

lemma translate_all_succeeds:
  assumes "\<forall>e \<in> set cms. dag_files (snd e) \<noteq> []"
  shows "\<exists>mods'. translate_cyber_modules path cms mods = Inr mods'"
  using assms
proof (induction cms arbitrary: mods)
  case Nil
  then show ?case by simp
next
  case (Cons e cms)
  obtain k cm where e: "e = (k, cm)" by (cases e)
  from Cons.prems obtain a ds where "dag_files cm = a # ds"
    by (cases "dag_files cm") (auto simp: e)
  from translate_one_same [OF this] obtain mid where
    "translate_cyber_module path k cm mods = Inr mid" by blast
  then show ?case using Cons.IH [of mid] Cons.prems by (simp add: e)
qed

lemma declared_keywords_other:
  assumes "translate_cyber_module path k c mods = Inr mid" and "name \<noteq> k"
  shows "declared_keywords mid name = declared_keywords mods name"
  using translate_one_other [OF assms(1), of name] assms(2)
  by (simp add: declared_keywords_def)

lemma translate_all_entry:
  assumes "distinct (map fst cms)" and "(name, cm) \<in> set cms" and "dag_files cm = a # ds"
    and "translate_cyber_modules path cms mods = Inr mods'"
  shows \<open>\<exists>m. map_of mods' name = Some m
          \<and> start_command m = ''nohup mainboard''
               @ (if process_group cm \<noteq> [] then '' -p '' @ process_group cm else [])
               @ concat (map (\<lambda>d. '' -d '' @ d) (a # ds)) @ '' &''
          \<and> stop_command m = ''pkill -f "'' @ a @ ''"''
          \<and> command_keywords m = declared_keywords mods name @ [''mainboard'', a]
          \<and> required_for_safety m = cyber_required_for_safety cm\<close>
  using assms
proof (induction cms arbitrary: mods)
  case Nil
  then show ?case by simp
next
  case (Cons e cms)
  obtain k c where e: "e = (k, c)" by (cases e)
  from Cons.prems(4) obtain mid where
    one: "translate_cyber_module path k c mods = Inr mid" and
    rest: "translate_cyber_modules path cms mid = Inr mods'"
    by (auto simp: e split: sum.splits)
  from Cons.prems(1) have fresh: "k \<notin> set (map fst cms)" and dist: "distinct (map fst cms)"
    by (simp_all add: e)
  show ?case
  proof (cases "(name, cm) = (k, c)")
    case True
    then have nk: "name = k" and cc: "cm = c" by simp_all
    from translate_one_same [OF Cons.prems(3), of path name mods] one
    obtain m where m: "map_of mid name = Some m"
      and f: \<open>start_command m = ''nohup mainboard''
               @ (if process_group cm \<noteq> [] then '' -p '' @ process_group cm else [])
               @ concat (map (\<lambda>d. '' -d '' @ d) (a # ds)) @ '' &''\<close>
         \<open>stop_command m = ''pkill -f "'' @ a @ ''"''\<close>
         \<open>command_keywords m = declared_keywords mods name @ [''mainboard'', a]\<close>
         \<open>required_for_safety m = cyber_required_for_safety cm\<close>
      unfolding nk cc by auto
    from translate_all_other [OF rest, of name] fresh nk
    have "map_of mods' name = map_of mid name" by simp
    with m f show ?thesis by simp
  next
    case False
    with Cons.prems(2) have mem: "(name, cm) \<in> set cms" by (auto simp: e)
    then have "name \<in> set (map fst cms)" by force
    with fresh have ne: "name \<noteq> k" by auto
    from Cons.IH [OF dist mem Cons.prems(3) rest] declared_keywords_other [OF one ne]
    show ?thesis by simp
  qed
qed

text \<open>
  Claim C4, as the code has it. A descriptor that parses, whose cyber modules all list a
  dag file, loads; for its cyber module entry \<open>name\<close> with dag files \<open>[a, b]\<close> and the
  non-empty process group \<open>g\<close>, the loaded module \<open>name\<close> has the start command
  \<^verbatim>\<open>nohup mainboard -p g -d a -d b &\<close>, the stop command \<^verbatim>\<open>pkill -f "a"\<close>, and as
  liveness keywords those that a regular module entry of the same name already lists,
  followed by \<^verbatim>\<open>mainboard\<close> and \<open>a\<close>.
\<close>

theorem LoadMode_cyber_module_commands:
  assumes "GetProtoFromFile env path = Some mode"
    and "distinct (map fst (cyber_modules mode))"
    and "\<forall>e \<in> set (cyber_modules mode). dag_files (snd e) \<noteq> []"
    and "(name, cm) \<in> set (cyber_modules mode)"
    and "dag_files cm = [a, b]" and "process_group cm = g" and "g \<noteq> []"
  shows \<open>\<exists>loaded m. LoadMode env path = Inr loaded
          \<and> FindOrNull (mode_modules loaded) name = Some m
          \<and> start_command m
              = ''nohup mainboard'' @ '' -p '' @ g @ '' -d '' @ a @ '' -d '' @ b @ '' &''
          \<and> stop_command m = ''pkill -f "'' @ a @ ''"''
          \<and> command_keywords m
              = declared_keywords (mode_modules mode) name @ [''mainboard'', a]\<close>
proof -
  from translate_all_succeeds [OF assms(3)] obtain mods' where
    tr: "translate_cyber_modules path (cyber_modules mode) (mode_modules mode) = Inr mods'"
    by blast
  have load: "LoadMode env path = Inr (mode\<lparr>mode_modules := mods', cyber_modules := []\<rparr>)"
    by (simp add: LoadMode_def assms(1) tr)
  from translate_all_entry [OF assms(2) assms(4) assms(5) tr] assms(6) assms(7)
  obtain m where "map_of mods' name = Some m"
    and \<open>start_command m
           = ''nohup mainboard'' @ '' -p '' @ g @ '' -d '' @ a @ '' -d '' @ b @ '' &''\<close>
    and \<open>stop_command m = ''pkill -f "'' @ a @ ''"''\<close>
    and \<open>command_keywords m
           = declared_keywords (mode_modules mode) name @ [''mainboard'', a]\<close>
    by auto
  with load show ?thesis by (simp add: FindOrNull_def)
qed

theorem LoadMode_cyber_module_commands_witness:
  \<open>\<exists>loaded m. LoadMode demo_env ''/modes/mkz.pb.txt'' = Inr loaded
      \<and> FindOrNull (mode_modules loaded) ''Planning'' = Some m
      \<and> start_command m
          = ''nohup mainboard -p compute_sched -d /dag/planning.dag -d /dag/relative_map.dag &''
      \<and> stop_command m = ''pkill -f "/dag/planning.dag"''
      \<and> command_keywords m = [''mainboard'', ''/dag/planning.dag'']\<close>
  using LoadMode_cyber_module_commands [of demo_env "''/modes/mkz.pb.txt''" mkz_mode_file
      "''Planning''" planning_cyber_module "''/dag/planning.dag''"
      "''/dag/relative_map.dag''" "''compute_sched''"]
  by (simp add: demo_env_def mkz_mode_file_def planning_cyber_module_def
      declared_keywords_def)

text \<open>
  The claim as it is written fails on a descriptor that lists the module under both
  maps: the keywords of the regular entry stay in front.
\<close>

theorem LoadMode_keywords_counterexample:
  \<open>(''Planning'', planning_cyber_module) \<in> set (cyber_modules merged_mode_file)
   \<and> LoadMode demo_env ''/modes/merged.pb.txt''
     = Inr \<lparr>cyber_modules = [],
            mode_modules =
              [(''Planning'',
                \<lparr>start_command =
                   ''nohup mainboard -p compute_sched -d /dag/planning.dag -d /dag/relative_map.dag &'',
                 stop_command = ''pkill -f "/dag/planning.dag"'',
                 command_keywords = [''planning_main'', ''mainboard'', ''/dag/planning.dag''],
                 required_for_safety = True\<rparr>)],
            mode_monitored_components = [(''GPS'', ())]\<rparr>
   \<and> [''planning_main'', ''mainboard'', ''/dag/planning.dag'']
     \<noteq> [''mainboard'', ''/dag/planning.dag'']\<close>
  by (simp add: LoadMode_def demo_env_def merged_mode_file_def planning_cyber_module_def
      translate_cyber_module_def FindOrNull_def Let_def)


subsection \<open>ChangeDrivingMode\<close>

lemma without_logs_append: "without_logs (xs @ ys) = without_logs xs @ without_logs ys"
  by (induction xs rule: without_logs.induct) simp_all

lemma ChangeDrivingMode_manual:
  "ChangeDrivingMode COMPLETE_MANUAL w = try_driving_action COMPLETE_MANUAL RESET w"
  by (subst ChangeDrivingMode.simps) simp

lemma ChangeDrivingMode_auto:
  "ChangeDrivingMode COMPLETE_AUTO_DRIVE w =
     (case ChangeDrivingMode COMPLETE_MANUAL w of
        Inl a \<Rightarrow> Inl a
      | Inr (reset_ok, w1) \<Rightarrow>
          if \<not> reset_ok
          then Inr (False, emit (LogError (''Failed to reset to MANUAL before changing to ''
                                           @ DrivingMode_Name COMPLETE_AUTO_DRIVE)) w1)
          else try_driving_action COMPLETE_AUTO_DRIVE START w1)"
  by (subst ChangeDrivingMode.simps) (simp split: sum.split prod.split)

lemma ChangeDrivingMode_unsupported:
  assumes "mode \<noteq> COMPLETE_MANUAL" and "mode \<noteq> COMPLETE_AUTO_DRIVE"
  shows "ChangeDrivingMode mode w =
     (case ChangeDrivingMode COMPLETE_MANUAL w of
        Inl a \<Rightarrow> Inl a
      | Inr (reset_ok, w1) \<Rightarrow>
          if \<not> reset_ok
          then Inr (False, emit (LogError (''Failed to reset to MANUAL before changing to ''
                                           @ DrivingMode_Name mode)) w1)
          else Inl (Abort (''Change driving mode to '' @ DrivingMode_Name mode
                                    @ '' not implemented!'') w1))"
  using assms by (subst ChangeDrivingMode.simps) (cases mode; simp split: sum.split prod.split)


lemma send_driving_action_frame:
  "send_driving_action n mode act w = (ok, w') \<Longrightarrow>
     w_status w' = w_status w \<and> w_status_changed w' = w_status_changed w
     \<and> w_current_mode w' = w_current_mode w \<and> w_config w' = w_config w"
  by (induction n arbitrary: w)
     (auto simp: Let_def emit_def Observe_def split: option.splits list.splits if_splits)

lemma send_driving_action_keeps_never:
  "send_driving_action n mode act w = (ok, w') \<Longrightarrow>
     chassis_observed w \<noteq> Some m \<Longrightarrow> Some m \<notin> set (chassis_feed w) \<Longrightarrow>
     chassis_observed w' \<noteq> Some m \<and> Some m \<notin> set (chassis_feed w')"
proof (induction n arbitrary: w)
  case 0
  then show ?case by simp
next
  case (Suc n)
  let ?w3 = "Observe (emit (SleepMs kTryInterval) (emit (PadWrite act) w))"
  have obs: "chassis_observed ?w3 \<noteq> Some m" and feed: "Some m \<notin> set (chassis_feed ?w3)"
    using Suc.prems(2,3) by (auto simp: emit_def Observe_def split: list.splits)
  show ?case
  proof (cases "chassis_observed ?w3")
    case None
    with Suc.prems(1) have
      "send_driving_action n mode act (emit (LogError ''No Chassis message received!'') ?w3)
         = (ok, w')"
      by (simp add: Let_def)
    from Suc.IH [OF this] obs feed show ?thesis by (simp add: emit_def)
  next
    case (Some d)
    show ?thesis
    proof (cases "d = mode")
      case True
      with Some Suc.prems(1) have "w' = ?w3" by (simp add: Let_def)
      with obs feed show ?thesis by simp
    next
      case False
      with Some Suc.prems(1) have "send_driving_action n mode act ?w3 = (ok, w')"
        by (simp add: Let_def)
      from Suc.IH [OF this obs feed] show ?thesis .
    qed
  qed
qed

lemma send_driving_action_never:
  "chassis_observed w \<noteq> Some mode \<Longrightarrow> Some mode \<notin> set (chassis_feed w) \<Longrightarrow>
     \<exists>w'. send_driving_action n mode act w = (False, w')
       \<and> without_logs (effects w')
           = without_logs (effects w) @ concat (replicate n [PadWrite act, SleepMs kTryInterval])"
proof (induction n arbitrary: w)
  case 0
  then show ?case by simp
next
  case (Suc n)
  let ?w3 = "Observe (emit (SleepMs kTryInterval) (emit (PadWrite act) w))"
  have obs: "chassis_observed ?w3 \<noteq> Some mode" and feed: "Some mode \<notin> set (chassis_feed ?w3)"
    using Suc.prems by (auto simp: emit_def Observe_def split: list.splits)
  have eff: "without_logs (effects ?w3)
               = without_logs (effects w) @ [PadWrite act, SleepMs kTryInterval]"
    by (simp add: emit_def Observe_def without_logs_append split: list.splits)
  show ?case
  proof (cases "chassis_observed ?w3")
    case None
    let ?w4 = "emit (LogError ''No Chassis message received!'') ?w3"
    have "chassis_observed ?w4 \<noteq> Some mode" "Some mode \<notin> set (chassis_feed ?w4)"
      using obs feed by (simp_all add: emit_def)
    from Suc.IH [OF this] obtain w' where
      "send_driving_action n mode act ?w4 = (False, w')"
      "without_logs (effects w')
         = without_logs (effects ?w4) @ concat (replicate n [PadWrite act, SleepMs kTryInterval])"
      by blast
    moreover have "without_logs (effects ?w4) = without_logs (effects ?w3)"
      by (simp add: emit_def without_logs_append)
    ultimately show ?thesis using None eff by (simp add: Let_def)
  next
    case (Some d)
    with obs have "d \<noteq> mode" by auto
    from Suc.IH [OF obs feed] obtain w' where
      "send_driving_action n mode act ?w3 = (False, w')"
      "without_logs (effects w')
         = without_logs (effects ?w3) @ concat (replicate n [PadWrite act, SleepMs kTryInterval])"
      by blast
    then show ?thesis using Some \<open>d \<noteq> mode\<close> eff by (simp add: Let_def)
  qed
qed

lemma send_driving_action_success:
  "send_driving_action n mode act w = (True, w') \<Longrightarrow>
     \<exists>k. 1 \<le> k \<and> k \<le> n
       \<and> without_logs (effects w')
           = without_logs (effects w) @ concat (replicate k [PadWrite act, SleepMs kTryInterval])
       \<and> chassis_observed w' = Some mode"
proof (induction n arbitrary: w)
  case 0
  then show ?case by simp
next
  case (Suc n)
  let ?w3 = "Observe (emit (SleepMs kTryInterval) (emit (PadWrite act) w))"
  have eff: "without_logs (effects ?w3)
               = without_logs (effects w) @ [PadWrite act, SleepMs kTryInterval]"
    by (simp add: emit_def Observe_def without_logs_append split: list.splits)
  show ?case
  proof (cases "chassis_observed ?w3 = Some mode")
    case True
    with Suc.prems have "w' = ?w3" by (simp add: Let_def)
    with eff True have "1 \<le> (1::nat) \<and> 1 \<le> Suc n
       \<and> without_logs (effects w')
           = without_logs (effects w) @ concat (replicate 1 [PadWrite act, SleepMs kTryInterval])
       \<and> chassis_observed w' = Some mode" by simp
    then show ?thesis by blast
  next
    case False
    let ?w4 = "(case chassis_observed ?w3 of None \<Rightarrow> emit (LogError ''No Chassis message received!'') ?w3 | Some d \<Rightarrow> ?w3)"
    have e4: "without_logs (effects ?w4) = without_logs (effects ?w3)"
      by (simp add: emit_def without_logs_append split: option.splits)
    from False Suc.prems have "send_driving_action n mode act ?w4 = (True, w')"
      by (auto simp: Let_def split: option.splits if_splits)
    from Suc.IH [OF this] obtain k where k: "1 \<le> k" "k \<le> n"
      "without_logs (effects w')
           = without_logs (effects ?w4) @ concat (replicate k [PadWrite act, SleepMs kTryInterval])"
      "chassis_observed w' = Some mode" by blast
    have "1 \<le> Suc k \<and> Suc k \<le> Suc n
       \<and> without_logs (effects w')
           = without_logs (effects w) @ concat (replicate (Suc k) [PadWrite act, SleepMs kTryInterval])
       \<and> chassis_observed w' = Some mode"
      using k e4 eff by simp
    then show ?thesis by blast
  qed
qed


lemma send_driving_action_failure:
  "send_driving_action n mode act w = (False, w') \<Longrightarrow>
     without_logs (effects w')
       = without_logs (effects w) @ concat (replicate n [PadWrite act, SleepMs kTryInterval])"
proof (induction n arbitrary: w)
  case 0
  then show ?case by simp
next
  case (Suc n)
  let ?w3 = "Observe (emit (SleepMs kTryInterval) (emit (PadWrite act) w))"
  let ?w4 = "(case chassis_observed ?w3 of
                None \<Rightarrow> emit (LogError ''No Chassis message received!'') ?w3
              | Some d \<Rightarrow> ?w3)"
  have eff: "without_logs (effects ?w4)
               = without_logs (effects w) @ [PadWrite act, SleepMs kTryInterval]"
    by (simp add: emit_def Observe_def without_logs_append split: list.splits option.splits)
  from Suc.prems have "send_driving_action n mode act ?w4 = (False, w')"
    by (auto simp: Let_def split: option.splits if_splits)
  from Suc.IH [OF this] eff show ?case by simp
qed

lemma try_driving_action_result:
  "\<exists>ok w'. try_driving_action mode act w = Inr (ok, w')
     \<and> (\<exists>w''. send_driving_action kMaxTries mode act w = (ok, w'')
            \<and> without_logs (effects w') = without_logs (effects w'')
            \<and> w_status w' = w_status w'' \<and> w_status_changed w' = w_status_changed w''
            \<and> chassis_observed w' = chassis_observed w''
            \<and> chassis_feed w' = chassis_feed w'')"
  by (cases "send_driving_action kMaxTries mode act w")
     (auto simp: try_driving_action_def emit_def without_logs_append split: bool.splits)

text \<open>
  Claim C2, as the code has it. In every run towards \<open>COMPLETE_AUTO_DRIVE\<close> whose
  chassis feedback never reports \<open>COMPLETE_AUTO_DRIVE\<close>, the call returns failure and
  leaves the status record and the dirty flag as they were. If the sub-transition to
  \<open>COMPLETE_MANUAL\<close> succeeds (after one to three \<open>RESET\<close> attempts), exactly three
  \<open>START\<close> attempts follow, each one a pad message and a sleep of 500 ms. If it fails,
  the three \<open>RESET\<close> attempts are all that is sent.
\<close>

theorem ChangeDrivingMode_auto_not_reached:
  assumes "chassis_observed w \<noteq> Some COMPLETE_AUTO_DRIVE"
    and "Some COMPLETE_AUTO_DRIVE \<notin> set (chassis_feed w)"
  shows "\<exists>reset_ok w1 w2.
           ChangeDrivingMode COMPLETE_MANUAL w = Inr (reset_ok, w1)
         \<and> ChangeDrivingMode COMPLETE_AUTO_DRIVE w = Inr (False, w2)
         \<and> w_status w2 = w_status w \<and> w_status_changed w2 = w_status_changed w
         \<and> (if reset_ok
             then (\<exists>k. 1 \<le> k \<and> k \<le> 3
                     \<and> without_logs (effects w1)
                         = without_logs (effects w)
                           @ concat (replicate k [PadWrite RESET, SleepMs 500]))
                  \<and> without_logs (effects w2)
                      = without_logs (effects w1)
                        @ [PadWrite START, SleepMs 500, PadWrite START, SleepMs 500,
                           PadWrite START, SleepMs 500]
             else without_logs (effects w2)
                    = without_logs (effects w)
                      @ [PadWrite RESET, SleepMs 500, PadWrite RESET, SleepMs 500,
                         PadWrite RESET, SleepMs 500])"
proof -
  from try_driving_action_result [of COMPLETE_MANUAL RESET w]
  obtain reset_ok w1 w1' where
    t1: "try_driving_action COMPLETE_MANUAL RESET w = Inr (reset_ok, w1)" and
    s1: "send_driving_action kMaxTries COMPLETE_MANUAL RESET w = (reset_ok, w1')" and
    e1: "without_logs (effects w1) = without_logs (effects w1')" and
    f1: "w_status w1 = w_status w1'" "w_status_changed w1 = w_status_changed w1'" and
    c1: "chassis_observed w1 = chassis_observed w1'" "chassis_feed w1 = chassis_feed w1'"
    by blast
  have man: "ChangeDrivingMode COMPLETE_MANUAL w = Inr (reset_ok, w1)"
    by (simp add: ChangeDrivingMode_manual t1)
  from send_driving_action_frame [OF s1] f1
  have fr1: "w_status w1 = w_status w" "w_status_changed w1 = w_status_changed w" by simp_all
  show ?thesis
  proof (cases reset_ok)
    case False
    let ?w2 = "emit (LogError (''Failed to reset to MANUAL before changing to ''
                               @ DrivingMode_Name COMPLETE_AUTO_DRIVE)) w1"
    have auto: "ChangeDrivingMode COMPLETE_AUTO_DRIVE w = Inr (False, ?w2)"
      using False by (simp add: ChangeDrivingMode_auto man)
    from send_driving_action_failure [of kMaxTries COMPLETE_MANUAL RESET w w1'] s1 False e1
    have "without_logs (effects ?w2)
            = without_logs (effects w)
              @ [PadWrite RESET, SleepMs 500, PadWrite RESET, SleepMs 500,
                 PadWrite RESET, SleepMs 500]"
      by (simp add: emit_def without_logs_append kMaxTries_def kTryInterval_def
          numeral_3_eq_3)
    with man auto fr1 False show ?thesis by (auto simp: emit_def)
  next
    case True
    from send_driving_action_success [of kMaxTries COMPLETE_MANUAL RESET w w1'] s1 True e1
    obtain k where k: "1 \<le> k" "k \<le> 3"
      "without_logs (effects w1)
         = without_logs (effects w) @ concat (replicate k [PadWrite RESET, SleepMs 500])"
      by (auto simp: kMaxTries_def kTryInterval_def)
    from send_driving_action_keeps_never [OF s1 assms] c1
    have nv: "chassis_observed w1 \<noteq> Some COMPLETE_AUTO_DRIVE"
      "Some COMPLETE_AUTO_DRIVE \<notin> set (chassis_feed w1)" by simp_all
    from send_driving_action_never [OF nv, of kMaxTries START] obtain w2' where
      s2: "send_driving_action kMaxTries COMPLETE_AUTO_DRIVE START w1 = (False, w2')" and
      e2: "without_logs (effects w2')
             = without_logs (effects w1)
               @ concat (replicate kMaxTries [PadWrite START, SleepMs kTryInterval])"
      by blast
    let ?w2 = "emit (LogError (''Failed to change driving mode to ''
                               @ DrivingMode_Name COMPLETE_AUTO_DRIVE)) w2'"
    have auto: "ChangeDrivingMode COMPLETE_AUTO_DRIVE w = Inr (False, ?w2)"
      using True by (simp add: ChangeDrivingMode_auto man try_driving_action_def s2)
    have eff2: "without_logs (effects ?w2)
            = without_logs (effects w1)
              @ [PadWrite START, SleepMs 500, PadWrite START, SleepMs 500,
                 PadWrite START, SleepMs 500]"
      using e2 by (simp add: emit_def without_logs_append kMaxTries_def kTryInterval_def
          numeral_3_eq_3)
    from send_driving_action_frame [OF s2] fr1
    have "w_status ?w2 = w_status w" "w_status_changed ?w2 = w_status_changed w"
      by (simp_all add: emit_def)
    with man auto True k eff2 show ?thesis by auto
  qed
qed


theorem ChangeDrivingMode_auto_not_reached_witness:
  "chassis_observed (demo_worker\<lparr>chassis_feed := [Some COMPLETE_MANUAL]\<rparr>)
     \<noteq> Some COMPLETE_AUTO_DRIVE
   \<and> Some COMPLETE_AUTO_DRIVE
       \<notin> set (chassis_feed (demo_worker\<lparr>chassis_feed := [Some COMPLETE_MANUAL]\<rparr>))
   \<and> ChangeDrivingMode COMPLETE_MANUAL (demo_worker\<lparr>chassis_feed := [Some COMPLETE_MANUAL]\<rparr>)
       = Inr (True, demo_worker\<lparr>chassis_observed := Some COMPLETE_MANUAL,
                effects := [PadWrite RESET, SleepMs 500]\<rparr>)
   \<and> ChangeDrivingMode COMPLETE_AUTO_DRIVE
         (demo_worker\<lparr>chassis_feed := [Some COMPLETE_MANUAL]\<rparr>)
       = Inr (False, demo_worker\<lparr>chassis_observed := Some COMPLETE_MANUAL,
                effects := [PadWrite RESET, SleepMs 500,
                            PadWrite START, SleepMs 500, PadWrite START, SleepMs 500,
                            PadWrite START, SleepMs 500,
                            LogError ''Failed to change driving mode to COMPLETE_AUTO_DRIVE'']\<rparr>)"
  using ChangeDrivingMode_auto_not_reached
          [of "demo_worker\<lparr>chassis_feed := [Some COMPLETE_MANUAL]\<rparr>"]
  by (simp add: ChangeDrivingMode_auto ChangeDrivingMode_manual try_driving_action_def
      kMaxTries_def numeral_3_eq_3 Let_def emit_def Observe_def demo_worker_def
      kTryInterval_def DrivingMode_Name_def)

text \<open>
  With no chassis message at all, feedback never reports \<open>COMPLETE_AUTO_DRIVE\<close>, and
  yet no \<open>START\<close> attempt is made: the sub-transition to manual fails first.
\<close>

theorem ChangeDrivingMode_auto_counterexample:
  "chassis_observed demo_worker \<noteq> Some COMPLETE_AUTO_DRIVE
   \<and> Some COMPLETE_AUTO_DRIVE \<notin> set (chassis_feed demo_worker)
   \<and> ChangeDrivingMode COMPLETE_AUTO_DRIVE demo_worker
       = Inr (False, demo_worker\<lparr>effects :=
                [PadWrite RESET, SleepMs 500, LogError ''No Chassis message received!'',
                 PadWrite RESET, SleepMs 500, LogError ''No Chassis message received!'',
                 PadWrite RESET, SleepMs 500, LogError ''No Chassis message received!'',
                 LogError ''Failed to change driving mode to COMPLETE_MANUAL'',
                 LogError ''Failed to reset to MANUAL before changing to COMPLETE_AUTO_DRIVE'']\<rparr>)"
  by (simp add: ChangeDrivingMode_auto ChangeDrivingMode_manual try_driving_action_def
      kMaxTries_def numeral_3_eq_3 Let_def emit_def Observe_def demo_worker_def
      kTryInterval_def DrivingMode_Name_def)

text \<open>
  Claim C9. For a target other than \<open>COMPLETE_MANUAL\<close> and \<open>COMPLETE_AUTO_DRIVE\<close>,
  once the sub-transition to \<open>COMPLETE_MANUAL\<close> has succeeded, the call ends in the
  fatal log statement of the switch: the process terminates, no failure result is
  returned.
\<close>

theorem ChangeDrivingMode_unsupported_target_aborts:
  assumes "mode \<noteq> COMPLETE_MANUAL" and "mode \<noteq> COMPLETE_AUTO_DRIVE"
    and "ChangeDrivingMode COMPLETE_MANUAL w = Inr (True, w1)"
  shows "ChangeDrivingMode mode w
           = Inl (Abort (''Change driving mode to '' @ DrivingMode_Name mode
                         @ '' not implemented!'') w1)"
  using assms by (simp add: ChangeDrivingMode_unsupported)

theorem ChangeDrivingMode_unsupported_target_aborts_witness:
  "EMERGENCY_MODE \<noteq> COMPLETE_MANUAL \<and> EMERGENCY_MODE \<noteq> COMPLETE_AUTO_DRIVE
   \<and> ChangeDrivingMode COMPLETE_MANUAL (demo_worker\<lparr>chassis_feed := [Some COMPLETE_MANUAL]\<rparr>)
       = Inr (True, demo_worker\<lparr>chassis_observed := Some COMPLETE_MANUAL,
                effects := [PadWrite RESET, SleepMs 500]\<rparr>)
   \<and> ChangeDrivingMode EMERGENCY_MODE (demo_worker\<lparr>chassis_feed := [Some COMPLETE_MANUAL]\<rparr>)
       = Inl (Abort ''Change driving mode to EMERGENCY_MODE not implemented!''
               (demo_worker\<lparr>chassis_observed := Some COMPLETE_MANUAL,
                  effects := [PadWrite RESET, SleepMs 500]\<rparr>))"
proof -
  have m: "ChangeDrivingMode COMPLETE_MANUAL
             (demo_worker\<lparr>chassis_feed := [Some COMPLETE_MANUAL]\<rparr>)
           = Inr (True, demo_worker\<lparr>chassis_observed := Some COMPLETE_MANUAL,
                    effects := [PadWrite RESET, SleepMs 500]\<rparr>)"
    by (simp add: ChangeDrivingMode_manual try_driving_action_def
      kMaxTries_def numeral_3_eq_3 Let_def emit_def Observe_def demo_worker_def
      kTryInterval_def)
  from ChangeDrivingMode_unsupported_target_aborts [OF _ _ m, of EMERGENCY_MODE] m
  show ?thesis by (simp add: DrivingMode_Name_def)
qed



subsection \<open>Running commands\<close>

lemma commands_run_append: "commands_run (xs @ ys) = commands_run xs @ commands_run ys"
  by (induction xs rule: commands_run.induct) simp_all

lemma System_fields:
  "w_status (System env cmd w) = w_status w"
  "w_status_changed (System env cmd w) = w_status_changed w"
  "w_current_mode (System env cmd w) = w_current_mode w"
  "w_config (System env cmd w) = w_config w"
  "commands_run (effects (System env cmd w)) = commands_run (effects w) @ [cmd]"
  by (simp_all add: System_def Let_def emit_def commands_run_append)

lemma fold_System_fields:
  "w_status (fold (\<lambda>iter. System env (f iter)) xs w) = w_status w
   \<and> w_status_changed (fold (\<lambda>iter. System env (f iter)) xs w) = w_status_changed w
   \<and> w_current_mode (fold (\<lambda>iter. System env (f iter)) xs w) = w_current_mode w
   \<and> w_config (fold (\<lambda>iter. System env (f iter)) xs w) = w_config w
   \<and> commands_run (effects (fold (\<lambda>iter. System env (f iter)) xs w))
       = commands_run (effects w) @ map f xs"
  by (induction xs arbitrary: w) (simp_all add: System_fields)

lemma ResetMode_fields:
  "w_status (ResetMode env w) = w_status w"
  "w_status_changed (ResetMode env w) = w_status_changed w"
  "w_current_mode (ResetMode env w) = w_current_mode w"
  "w_config (ResetMode env w) = w_config w"
  "commands_run (effects (ResetMode env w))
     = commands_run (effects w)
       @ map (\<lambda>iter. stop_command (snd iter)) (mode_modules (w_current_mode w))"
  by (simp_all add: ResetMode_def fold_System_fields)

subsection \<open>ChangeMode with an unknown or the current mode\<close>

text \<open>
  Claim C1, as the code has it. For a mode name that is not a key of the configuration's
  modes, \<open>ChangeMode\<close> returns with the status record, the dirty flag and the loaded
  mode unchanged; all it does is log an error. \<open>ChangeMode\<close> has no result, and the
  triggered operation \<open>Trigger(CHANGE_MODE, name)\<close> returns \<open>True\<close>.
\<close>

theorem ChangeMode_unknown_mode:
  assumes "\<not> ContainsKey (cfg_modes (w_config w)) mode_name"
  shows "\<exists>w'. ChangeMode env mode_name w = Inr w'
           \<and> w_status w' = w_status w \<and> w_status_changed w' = w_status_changed w
           \<and> w_current_mode w' = w_current_mode w
           \<and> effects w' = effects w @ [LogError (''Cannot change to unknown mode '' @ mode_name)]
           \<and> Trigger_value env CHANGE_MODE mode_name w = Inr (True, w')"
  using assms by (simp add: ChangeMode_def Trigger_value_def emit_def)

theorem ChangeMode_unknown_mode_witness:
  "\<not> ContainsKey (cfg_modes (w_config demo_worker)) ''Ghost''
   \<and> (\<exists>w'. ChangeMode demo_env ''Ghost'' demo_worker = Inr w'
           \<and> w_status w' = w_status demo_worker
           \<and> w_status_changed w' = w_status_changed demo_worker
           \<and> w_current_mode w' = w_current_mode demo_worker
           \<and> effects w' = effects demo_worker
                            @ [LogError (''Cannot change to unknown mode '' @ ''Ghost'')]
           \<and> Trigger_value demo_env CHANGE_MODE ''Ghost'' demo_worker = Inr (True, w'))"
  using ChangeMode_unknown_mode [of demo_worker "''Ghost''" demo_env]
  by (simp add: ContainsKey_def demo_worker_def)

text \<open>
  The claim says that the caller is told of the failure; the dispatcher reports success.
\<close>

theorem Trigger_unknown_mode_counterexample:
  "\<not> ContainsKey (cfg_modes (w_config demo_worker)) ''Ghost''
   \<and> Trigger_value demo_env CHANGE_MODE ''Ghost'' demo_worker
       = Inr (True, demo_worker\<lparr>effects :=
                [LogError ''Cannot change to unknown mode Ghost'']\<rparr>)"
  by (simp add: ContainsKey_def demo_worker_def Trigger_value_def ChangeMode_def emit_def)

text \<open>
  Claim C6. For the mode name that is already current, \<open>ChangeMode\<close> returns with the
  status record, the dirty flag and the loaded mode unchanged, and runs no command; when
  the name is a key of the configuration, the worker state is unchanged altogether.
\<close>

theorem ChangeMode_current_mode_noop:
  assumes "current_mode (w_status w) = mode_name"
  shows "\<exists>w'. ChangeMode env mode_name w = Inr w'
           \<and> w_status w' = w_status w \<and> w_status_changed w' = w_status_changed w
           \<and> w_current_mode w' = w_current_mode w
           \<and> commands_run (effects w') = commands_run (effects w)
           \<and> (ContainsKey (cfg_modes (w_config w)) mode_name \<longrightarrow> w' = w)"
  using assms by (simp add: ChangeMode_def emit_def commands_run_append)

theorem ChangeMode_current_mode_noop_witness:
  "current_mode (w_status demo_worker) = ''Merged''
   \<and> ContainsKey (cfg_modes (w_config demo_worker)) ''Merged''
   \<and> ChangeMode demo_env ''Merged'' demo_worker = Inr demo_worker"
  using ChangeMode_current_mode_noop [of demo_worker "''Merged''" demo_env]
  by (auto simp add: ContainsKey_def demo_worker_def)

subsection \<open>Trigger\<close>

text \<open>
  Claim C8. An action that has no case label in \<open>Trigger(action)\<close>, or none in
  \<open>Trigger(action, value)\<close>, makes that dispatcher log an error and return \<open>False\<close>;
  \<open>Trigger(NONE)\<close> returns \<open>True\<close> and changes nothing.
\<close>

theorem Trigger_unsupported_action:
  "(action \<notin> {NONE, SETUP_MODE, ENTER_AUTO_MODE, DISENGAGE, RESET_MODE} \<longrightarrow>
      Trigger env action w
        = Inr (False, emit (LogError ''HMIAction not implemented, yet!'') w))
   \<and> (action \<notin> {CHANGE_MODE, CHANGE_MAP, CHANGE_VEHICLE, START_MODULE, STOP_MODULE} \<longrightarrow>
      Trigger_value env action v w
        = Inr (False, emit (LogError ''HMIAction not implemented, yet!'') w))
   \<and> Trigger env NONE w = Inr (True, w)"
  by (cases action) (simp_all add: Trigger_def Trigger_value_def)

theorem Trigger_unsupported_action_witness:
  "CHANGE_MAP \<notin> {NONE, SETUP_MODE, ENTER_AUTO_MODE, DISENGAGE, RESET_MODE}
   \<and> Trigger demo_env CHANGE_MAP demo_worker
       = Inr (False, demo_worker\<lparr>effects := [LogError ''HMIAction not implemented, yet!'']\<rparr>)
   \<and> SETUP_MODE \<notin> {CHANGE_MODE, CHANGE_MAP, CHANGE_VEHICLE, START_MODULE, STOP_MODULE}
   \<and> Trigger_value demo_env SETUP_MODE ''now'' demo_worker
       = Inr (False, demo_worker\<lparr>effects := [LogError ''HMIAction not implemented, yet!'']\<rparr>)
   \<and> Trigger demo_env NONE demo_worker = Inr (True, demo_worker)"
  using Trigger_unsupported_action [of CHANGE_MAP demo_env demo_worker "''now''"]
    Trigger_unsupported_action [of SETUP_MODE demo_env demo_worker "''now''"]
  by (simp add: emit_def demo_worker_def)

subsection \<open>ChangeVehicle\<close>

text \<open>
  Claim C5. An unknown vehicle name is only logged. For a known vehicle name other than
  the current one, \<open>ChangeVehicle\<close> sets the current vehicle and the dirty flag, runs the
  stop command of every module of the current mode, and then calls \<open>UseVehicle\<close> on
  the vehicle's directory; the process terminates exactly when that call reports failure.
\<close>

theorem ChangeVehicle_profile_switch:
  "(FindOrNull (cfg_vehicles (w_config w)) vehicle_name = None \<longrightarrow>
      ChangeVehicle env vehicle_name w
        = Inr (emit (LogError (''Unknown vehicle '' @ vehicle_name)) w))
   \<and> (\<forall>vehicle_dir.
        FindOrNull (cfg_vehicles (w_config w)) vehicle_name = Some vehicle_dir
        \<and> current_vehicle (w_status w) \<noteq> vehicle_name \<longrightarrow>
        (\<exists>w' es.
             w_status w' = (w_status w)\<lparr>current_vehicle := vehicle_name\<rparr>
           \<and> w_status_changed w'
           \<and> w_current_mode w' = w_current_mode w
           \<and> commands_run (effects w')
               = commands_run (effects w)
                 @ map (\<lambda>iter. stop_command (snd iter)) (mode_modules (w_current_mode w))
           \<and> effects w' = es @ [CallUseVehicle vehicle_dir]
           \<and> (UseVehicle env vehicle_dir \<longrightarrow> ChangeVehicle env vehicle_name w = Inr w')
           \<and> (\<not> UseVehicle env vehicle_dir \<longrightarrow>
                (\<exists>msg. ChangeVehicle env vehicle_name w = Inl (Abort msg w')))))"
proof (intro conjI allI impI)
  assume "FindOrNull (cfg_vehicles (w_config w)) vehicle_name = None"
  then show "ChangeVehicle env vehicle_name w
        = Inr (emit (LogError (''Unknown vehicle '' @ vehicle_name)) w)"
    by (simp add: ChangeVehicle_def)
next
  fix vehicle_dir
  assume a: "FindOrNull (cfg_vehicles (w_config w)) vehicle_name = Some vehicle_dir
        \<and> current_vehicle (w_status w) \<noteq> vehicle_name"
  let ?w2 = "w\<lparr>w_status := (w_status w)\<lparr>current_vehicle := vehicle_name\<rparr>,
               w_status_changed := True\<rparr>"
  let ?w4 = "emit (CallUseVehicle vehicle_dir) (ResetMode env ?w2)"
  have cv: "ChangeVehicle env vehicle_name w
              = (if UseVehicle env vehicle_dir then Inr ?w4
                 else Inl (Abort ''Check failed: VehicleManager::Instance()->UseVehicle(*vehicle_dir)'' ?w4))"
    using a by (simp add: ChangeVehicle_def Let_def)
  have "w_status ?w4 = (w_status w)\<lparr>current_vehicle := vehicle_name\<rparr>"
    "w_status_changed ?w4" "w_current_mode ?w4 = w_current_mode w"
    "commands_run (effects ?w4)
               = commands_run (effects w)
                 @ map (\<lambda>iter. stop_command (snd iter)) (mode_modules (w_current_mode w))"
    "effects ?w4 = effects (ResetMode env ?w2) @ [CallUseVehicle vehicle_dir]"
    by (simp_all add: emit_def ResetMode_fields commands_run_append)
  with cv show "\<exists>w' es.
             w_status w' = (w_status w)\<lparr>current_vehicle := vehicle_name\<rparr>
           \<and> w_status_changed w'
           \<and> w_current_mode w' = w_current_mode w
           \<and> commands_run (effects w')
               = commands_run (effects w)
                 @ map (\<lambda>iter. stop_command (snd iter)) (mode_modules (w_current_mode w))
           \<and> effects w' = es @ [CallUseVehicle vehicle_dir]
           \<and> (UseVehicle env vehicle_dir \<longrightarrow> ChangeVehicle env vehicle_name w = Inr w')
           \<and> (\<not> UseVehicle env vehicle_dir \<longrightarrow>
                (\<exists>msg. ChangeVehicle env vehicle_name w = Inl (Abort msg w')))"
    by (intro exI [of _ ?w4] exI [of _ "effects (ResetMode env ?w2)"]) simp
qed


theorem ChangeVehicle_profile_switch_witness:
  \<open>FindOrNull (cfg_vehicles (w_config demo_worker)) ''Mkz8'' = Some ''/vehicles/mkz8''
   \<and> current_vehicle (w_status demo_worker) \<noteq> ''Mkz8''
   \<and> UseVehicle demo_env ''/vehicles/mkz8''
   \<and> ChangeVehicle demo_env ''Mkz8'' demo_worker
       = Inr (demo_worker\<lparr>w_status := (w_status demo_worker)\<lparr>current_vehicle := ''Mkz8''\<rparr>,
                w_status_changed := True,
                effects := [Exec ''pkill -f "/dag/planning.dag"'',
                            CallUseVehicle ''/vehicles/mkz8'']\<rparr>)
   \<and> \<not> UseVehicle (demo_env\<lparr>UseVehicle := \<lambda>dir. False\<rparr>) ''/vehicles/mkz8''
   \<and> ChangeVehicle (demo_env\<lparr>UseVehicle := \<lambda>dir. False\<rparr>) ''Mkz8'' demo_worker
       = Inl (Abort ''Check failed: VehicleManager::Instance()->UseVehicle(*vehicle_dir)''
               (demo_worker\<lparr>w_status := (w_status demo_worker)\<lparr>current_vehicle := ''Mkz8''\<rparr>,
                  w_status_changed := True,
                  effects := [Exec ''pkill -f "/dag/planning.dag"'',
                              CallUseVehicle ''/vehicles/mkz8'']\<rparr>))
   \<and> FindOrNull (cfg_vehicles (w_config demo_worker)) ''Lincoln'' = None
   \<and> ChangeVehicle demo_env ''Lincoln'' demo_worker
       = Inr (demo_worker\<lparr>effects := [LogError ''Unknown vehicle Lincoln'']\<rparr>)\<close>
  using ChangeVehicle_profile_switch [of demo_worker "''Mkz8''" demo_env]
    ChangeVehicle_profile_switch [of demo_worker "''Lincoln''" demo_env]
  by (simp add: ChangeVehicle_def FindOrNull_def demo_worker_def demo_env_def ResetMode_def
      System_def emit_def merged_mode_loaded_def Let_def)

subsection \<open>ChangeMode to another mode\<close>

lemma fold_insert_modules:
  "fold (\<lambda>iter w'. w'\<lparr>w_status := (w_status w')
            \<lparr>modules := pb_insert (fst iter) v (modules (w_status w'))\<rparr>\<rparr>) xs w
     = w\<lparr>w_status := (w_status w)
            \<lparr>modules := fold (\<lambda>iter. pb_insert (fst iter) v) xs (modules (w_status w))\<rparr>\<rparr>"
  by (induction xs arbitrary: w) simp_all

lemma fold_insert_components:
  "fold (\<lambda>iter w'. w'\<lparr>w_status := (w_status w')
            \<lparr>monitored_components :=
               pb_insert (fst iter) v (monitored_components (w_status w'))\<rparr>\<rparr>) xs w
     = w\<lparr>w_status := (w_status w)
            \<lparr>monitored_components :=
               fold (\<lambda>iter. pb_insert (fst iter) v) xs (monitored_components (w_status w))\<rparr>\<rparr>"
  by (induction xs arbitrary: w) simp_all

lemma fold_pb_insert_keys:
  "set (map fst (fold (\<lambda>iter. pb_insert (fst iter) v) xs m)) = set (map fst m) \<union> set (map fst xs)"
  by (induction xs arbitrary: m) (auto simp: pb_insert_def ContainsKey_def)

lemma fold_pb_insert_values:
  "\<forall>e \<in> set m. snd e = v \<Longrightarrow> \<forall>e \<in> set (fold (\<lambda>iter. pb_insert (fst iter) v) xs m). snd e = v"
proof (induction xs arbitrary: m)
  case Nil
  then show ?case by simp
next
  case (Cons x xs)
  from Cons.prems have "\<forall>e \<in> set (pb_insert (fst x) v m). snd e = v"
    by (auto simp: pb_insert_def)
  from Cons.IH [OF this] show ?case by simp
qed

lemma ContainsKey_FindOrNull: "ContainsKey m k \<longleftrightarrow> FindOrNull m k \<noteq> None"
  by (simp add: ContainsKey_def FindOrNull_def map_of_eq_None_iff)

lemma fold_pb_insert_distinct:
  "distinct (map fst m) \<Longrightarrow> distinct (map fst (fold (\<lambda>iter. pb_insert (fst iter) v) xs m))"
  by (induction xs arbitrary: m) (auto simp: pb_insert_def ContainsKey_def)

text \<open>
  Claim C3. For a known mode name other than the current one whose descriptor loads,
  \<open>ChangeMode\<close> completes; the block under the write lock alone takes the worker to a
  state in which the keys of the status record's module map are exactly the module names
  of the loaded mode, all mapped to \<open>False\<close>, and the keys of the monitored-component
  map are exactly the monitored components of the loaded mode, all with the default
  (empty) summary. What follows the block only records the new mode name in the
  key-value store.
\<close>

theorem ChangeMode_rebuilds_status_maps:
  assumes "FindOrNull (cfg_modes (w_config w)) mode_name = Some mode_config_path"
    and "current_mode (w_status w) \<noteq> mode_name"
    and "LoadMode env mode_config_path = Inr mode"
  shows "\<exists>w1 w'. ChangeMode_locked env mode_name (ResetMode env w) = Inr w1
           \<and> ChangeMode env mode_name w = Inr w'
           \<and> w' = emit (KVPut (flag_current_mode_db_key env) mode_name) w1
           \<and> w_current_mode w' = mode
           \<and> current_mode (w_status w') = mode_name
           \<and> w_status_changed w'
           \<and> set (map fst (modules (w_status w'))) = set (map fst (mode_modules mode))
           \<and> (\<forall>e \<in> set (modules (w_status w')). snd e = False)
           \<and> distinct (map fst (modules (w_status w')))
           \<and> set (map fst (monitored_components (w_status w')))
               = set (map fst (mode_monitored_components mode))
           \<and> (\<forall>e \<in> set (monitored_components (w_status w')).
                 snd e = default_ComponentStatus)
           \<and> distinct (map fst (monitored_components (w_status w')))"
proof -
  let ?r = "ResetMode env w"
  let ?st = "(w_status ?r)\<lparr>current_mode := mode_name,
               modules := fold (\<lambda>iter. pb_insert (fst iter) False) (mode_modules mode) [],
               monitored_components :=
                 fold (\<lambda>iter. pb_insert (fst iter) default_ComponentStatus)
                   (mode_monitored_components mode) []\<rparr>"
  let ?w1 = "?r\<lparr>w_status := ?st, w_current_mode := mode, w_status_changed := True\<rparr>"
  have known: "ContainsKey (cfg_modes (w_config w)) mode_name"
    using assms(1) by (simp add: ContainsKey_FindOrNull)
  have locked: "ChangeMode_locked env mode_name ?r = Inr ?w1"
    using assms(1,3)
    by (simp add: ChangeMode_locked_def Let_def ResetMode_fields fold_insert_modules
        fold_insert_components)
  have cm: "ChangeMode env mode_name w
              = Inr (emit (KVPut (flag_current_mode_db_key env) mode_name) ?w1)"
    using known assms(2) locked by (simp add: ChangeMode_def Let_def)
  have keys: "set (map fst (modules ?st)) = set (map fst (mode_modules mode))"
    "set (map fst (monitored_components ?st)) = set (map fst (mode_monitored_components mode))"
    using fold_pb_insert_keys [of False "mode_modules mode" "[]"]
      fold_pb_insert_keys [of default_ComponentStatus "mode_monitored_components mode" "[]"]
    by simp_all
  have vals: "\<forall>e \<in> set (modules ?st). snd e = False"
    "\<forall>e \<in> set (monitored_components ?st). snd e = default_ComponentStatus"
    using fold_pb_insert_values [of "[]" False "mode_modules mode"]
      fold_pb_insert_values [of "[]" default_ComponentStatus "mode_monitored_components mode"]
    by simp_all
  have dist: "distinct (map fst (modules ?st))" "distinct (map fst (monitored_components ?st))"
    using fold_pb_insert_distinct [of "[]" False "mode_modules mode"]
      fold_pb_insert_distinct [of "[]" default_ComponentStatus "mode_monitored_components mode"]
    by simp_all
  show ?thesis
    using locked cm keys vals dist by (simp add: emit_def)
qed

theorem ChangeMode_rebuilds_status_maps_witness:
  \<open>FindOrNull (cfg_modes (w_config demo_worker)) ''Mkz'' = Some ''/modes/mkz.pb.txt''
   \<and> current_mode (w_status demo_worker) \<noteq> ''Mkz''
   \<and> (\<exists>mode. LoadMode demo_env ''/modes/mkz.pb.txt'' = Inr mode
         \<and> map fst (mode_modules mode) = [''Planning'']
         \<and> map fst (mode_monitored_components mode) = [''GPS''])
   \<and> (\<exists>w'. ChangeMode demo_env ''Mkz'' demo_worker = Inr w'
         \<and> current_mode (w_status w') = ''Mkz''
         \<and> modules (w_status w') = [(''Planning'', False)]
         \<and> monitored_components (w_status w')
             = [(''GPS'', \<lparr>status = UNKNOWN, message = []\<rparr>)]
         \<and> w_status_changed w'
         \<and> effects w' = [Exec ''pkill -f "/dag/planning.dag"'',
                          KVPut ''/apollo/hmi/status:current_mode'' ''Mkz''])\<close>
proof -
  have load: \<open>LoadMode demo_env ''/modes/mkz.pb.txt''
     = Inr \<lparr>cyber_modules = [],
            mode_modules =
              [(''Planning'',
                \<lparr>start_command =
                   ''nohup mainboard -p compute_sched -d /dag/planning.dag -d /dag/relative_map.dag &'',
                 stop_command = ''pkill -f "/dag/planning.dag"'',
                 command_keywords = [''mainboard'', ''/dag/planning.dag''],
                 required_for_safety = True\<rparr>)],
            mode_monitored_components = [(''GPS'', ())]\<rparr>\<close>
    by (simp add: LoadMode_def demo_env_def mkz_mode_file_def planning_cyber_module_def
      translate_cyber_module_def FindOrNull_def Let_def default_Module_def)
  have known: "FindOrNull (cfg_modes (w_config demo_worker)) ''Mkz'' = Some ''/modes/mkz.pb.txt''"
    by (simp add: FindOrNull_def demo_worker_def)
  have other: "current_mode (w_status demo_worker) \<noteq> ''Mkz''"
    by (simp add: demo_worker_def)
  note inst = ChangeMode_rebuilds_status_maps [OF known other load]
  have ev: \<open>ChangeMode demo_env ''Mkz'' demo_worker
    = Inr (demo_worker\<lparr>w_status := (w_status demo_worker)\<lparr>current_mode := ''Mkz'',
               modules := [(''Planning'', False)],
               monitored_components := [(''GPS'', \<lparr>status = UNKNOWN, message = []\<rparr>)]\<rparr>,
             w_status_changed := True,
             w_current_mode := \<lparr>cyber_modules = [],
                mode_modules =
                  [(''Planning'',
                    \<lparr>start_command =
                       ''nohup mainboard -p compute_sched -d /dag/planning.dag -d /dag/relative_map.dag &'',
                     stop_command = ''pkill -f "/dag/planning.dag"'',
                     command_keywords = [''mainboard'', ''/dag/planning.dag''],
                     required_for_safety = True\<rparr>)],
                mode_monitored_components = [(''GPS'', ())]\<rparr>,
             effects := [Exec ''pkill -f "/dag/planning.dag"'',
                         KVPut ''/apollo/hmi/status:current_mode'' ''Mkz'']\<rparr>)\<close>
    by (simp add: ChangeMode_def ChangeMode_locked_def Let_def
        demo_worker_def ContainsKey_def FindOrNull_def ResetMode_def System_def
        emit_def merged_mode_loaded_def demo_env_def pb_insert_def default_ComponentStatus_def
        LoadMode_def mkz_mode_file_def planning_cyber_module_def
        translate_cyber_module_def default_Module_def)
  show ?thesis using inst by (simp add: ev load known other)
qed


subsection \<open>The SystemStatus callback\<close>




subsection \<open>StatusUpdateThreadLoop\<close>

lemma loop_append:
  "StatusUpdateThreadLoop_from env (pre @ post) nxt w =
     (case StatusUpdateThreadLoop_from env pre nxt w of
        (rs, n1, w1) \<Rightarrow>
          (case StatusUpdateThreadLoop_from env post n1 w1 of
             (rs2, n2, w2) \<Rightarrow> (rs @ rs2, n2, w2)))"
  by (induction pre arbitrary: nxt w) (auto simp: Let_def split: prod.splits)

lemma loop_body_dirty_keeps_deadline:
  "loop_body env now nxt w = (Handled True st, nxt', w') \<Longrightarrow> nxt' = nxt"
  by (auto simp: loop_body_def Let_def split: if_splits)

lemma loop_dirty_keeps_deadline:
  "StatusUpdateThreadLoop_from env ticks nxt w = (rs, nxt', w') \<Longrightarrow>
     \<forall>r \<in> set rs. \<exists>st. r = Handled True st \<Longrightarrow> nxt' = nxt"
proof (induction ticks arbitrary: nxt w rs nxt' w')
  case Nil
  then show ?case by simp
next
  case (Cons t ticks)
  obtain now others where t: "t = (now, others)" by (cases t)
  obtain r n1 w1 where
    b: "loop_body env now nxt (others (emit (SleepMs kLoopIntervalMs) w)) = (r, n1, w1)"
    by (metis prod_cases3)
  obtain rs' n2 w2 where l: "StatusUpdateThreadLoop_from env ticks n1 w1 = (rs', n2, w2)"
    by (metis prod_cases3)
  from Cons.prems(1) b l have eq: "rs = r # rs'" "nxt' = n2" by (simp_all add: t Let_def)
  from Cons.prems(2) eq obtain st where r: "r = Handled True st"
    and rest: "\<forall>r \<in> set rs'. \<exists>st. r = Handled True st" by auto
  from loop_body_dirty_keeps_deadline [OF b [unfolded r]] have "n1 = nxt" .
  moreover from Cons.IH [OF l rest] have "n2 = n1" .
  ultimately show ?case using eq by simp
qed

text \<open>
  Claim C10. Let the loop run from startup through iterations that all found the dirty
  flag set. The deadline \<open>next_update_time\<close> is then still 0, and the next iteration,
  if it finds the flag unset and reads a clock value that is not negative, calls the
  handlers at once (a heartbeat, with \<open>status_changed = False\<close>) and only then sets the
  deadline to the clock value plus the publish interval.
\<close>

theorem first_clean_tick_publishes:
  assumes "StatusUpdateThreadLoop env pre w = (rs, nxt, w1)"
    and "\<forall>r \<in> set rs. \<exists>st. r = Handled True st"
    and "\<not> w_status_changed (others (emit (SleepMs kLoopIntervalMs) w1))"
    and "0 \<le> now"
  shows "nxt = 0
         \<and> StatusUpdateThreadLoop env (pre @ [(now, others)]) w
             = (rs @ [Handled False (w_status (others (emit (SleepMs kLoopIntervalMs) w1)))],
                now + flag_status_publish_interval env,
                (others (emit (SleepMs kLoopIntervalMs) w1))\<lparr>w_status_changed := False\<rparr>)"
proof -
  from assms(1) have run: "StatusUpdateThreadLoop_from env pre 0 w = (rs, nxt, w1)"
    by (simp add: StatusUpdateThreadLoop_def)
  from loop_dirty_keeps_deadline [OF run assms(2)] have z: "nxt = 0" .
  let ?w = "others (emit (SleepMs kLoopIntervalMs) w1)"
  have body: "loop_body env now 0 ?w
                = (Handled False (w_status ?w), now + flag_status_publish_interval env,
                   ?w\<lparr>w_status_changed := False\<rparr>)"
    using assms(3,4) by (simp add: loop_body_def Let_def GetStatus_def)
  show ?thesis
    using run z body by (simp add: StatusUpdateThreadLoop_def loop_append Let_def)
qed

theorem first_clean_tick_publishes_witness:
  "StatusUpdateThreadLoop demo_env [(1000, id)] (demo_worker\<lparr>w_status_changed := True\<rparr>)
     = ([Handled True (w_status demo_worker)], 0,
        demo_worker\<lparr>effects := [SleepMs 200]\<rparr>)
   \<and> \<not> w_status_changed (id (emit (SleepMs kLoopIntervalMs)
                                (demo_worker\<lparr>effects := [SleepMs 200]\<rparr>)))
   \<and> (0::real) \<le> 5001 / 5
   \<and> StatusUpdateThreadLoop demo_env [(1000, id), (5001 / 5, id)]
        (demo_worker\<lparr>w_status_changed := True\<rparr>)
     = ([Handled True (w_status demo_worker), Handled False (w_status demo_worker)],
        5026 / 5,
        demo_worker\<lparr>effects := [SleepMs 200, SleepMs 200]\<rparr>)"
proof -
  have run: "StatusUpdateThreadLoop demo_env [(1000, id)] (demo_worker\<lparr>w_status_changed := True\<rparr>)
     = ([Handled True (w_status demo_worker)], 0,
        demo_worker\<lparr>effects := [SleepMs 200]\<rparr>)"
    by (simp add: StatusUpdateThreadLoop_def loop_body_def Let_def GetStatus_def emit_def
        kLoopIntervalMs_def demo_worker_def)
  have dirty: "\<forall>r \<in> set [Handled True (w_status demo_worker)]. \<exists>st. r = Handled True st"
    by simp
  have clean: "\<not> w_status_changed (id (emit (SleepMs kLoopIntervalMs)
                                (demo_worker\<lparr>effects := [SleepMs 200]\<rparr>)))"
    by (simp add: emit_def demo_worker_def)
  have t: "(0::real) \<le> 5001 / 5" by simp
  from first_clean_tick_publishes [where others = id, OF run dirty clean t] run clean t
  show ?thesis
    by (simp add: emit_def kLoopIntervalMs_def demo_env_def demo_worker_def)
qed


end
